theory Spec2Isabelle
  imports Complex_Main "HOL-Library.Word"
begin

section \<open>JavaScript strings\<close>

text \<open>
  A JavaScript string is a sequence of UTF-16 code units. The methods used by
  \<^verbatim>\<open>back.js\<close> (\<^verbatim>\<open>replace\<close> with a regular expression without the \<^verbatim>\<open>u\<close> flag,
  \<^verbatim>\<open>trim\<close>, \<^verbatim>\<open>slice\<close>, \<^verbatim>\<open>length\<close>) all work on code units.
\<close>

type_synonym jschar = "16 word"
type_synonym jsstring = "jschar list"

definition lit :: "string \<Rightarrow> jsstring" where
  \<comment> \<open>an ASCII string literal of the source, as code units\<close>
  "lit s = map of_char s"

definition truthy :: "jsstring \<Rightarrow> bool" where
  \<comment> \<open>the empty string is the only falsy string\<close>
  "truthy s = (s \<noteq> [])"

definition isWhiteSpace :: "jschar \<Rightarrow> bool" where
  \<comment> \<open>ECMAScript WhiteSpace and LineTerminator, the code units \<^verbatim>\<open>trim\<close> strips:
      TAB, LF, VT, FF, CR, SP, NBSP, U+1680, U+2000..U+200A, LS, PS, U+202F, U+205F,
      U+3000, U+FEFF\<close>
  "isWhiteSpace c =
     (c = 0x09 \<or> c = 0x0A \<or> c = 0x0B \<or> c = 0x0C \<or> c = 0x0D \<or> c = 0x20 \<or> c = 0xA0 \<or>
      c = 0x1680 \<or> (0x2000 \<le> c \<and> c \<le> 0x200A) \<or> c = 0x2028 \<or> c = 0x2029 \<or>
      c = 0x202F \<or> c = 0x205F \<or> c = 0x3000 \<or> c = 0xFEFF)"

definition orElse :: "jsstring option \<Rightarrow> jsstring \<Rightarrow> jsstring" where
  \<comment> \<open>\<^verbatim>\<open>v || d\<close> for \<open>v\<close> a string (\<open>Some\<close>) or \<^verbatim>\<open>null\<close>/\<^verbatim>\<open>undefined\<close> (\<open>None\<close>)\<close>
  "orElse v d = (case v of None \<Rightarrow> d | Some s \<Rightarrow> if truthy s then s else d)"

definition trimStart :: "jsstring \<Rightarrow> jsstring" where
  "trimStart s = dropWhile isWhiteSpace s"

definition trimEnd :: "jsstring \<Rightarrow> jsstring" where
  "trimEnd s = rev (dropWhile isWhiteSpace (rev s))"

definition trim :: "jsstring \<Rightarrow> jsstring" where
  \<comment> \<open>\<^verbatim>\<open>String.prototype.trim\<close>\<close>
  "trim s = trimEnd (trimStart s)"

definition slice0 :: "nat \<Rightarrow> jsstring \<Rightarrow> jsstring" where
  \<comment> \<open>\<^verbatim>\<open>s.slice(0, n)\<close> for a literal \<^verbatim>\<open>n \<ge> 0\<close>\<close>
  "slice0 n s = take n s"

section \<open>The filename sanitizer\<close>

text \<open>
  \<^verbatim>\<open>
  function sanitizeFilename(name) {
    return (name || 'document').replace(/[\\/:*?"<>|]+/g, '-').trim().slice(0, 120) || 'document';
  }
  \<close>
\<close>

definition reservedChars :: "jschar list" where
  \<comment> \<open>the character class of the regular expression:
      backslash, slash, colon, asterisk, question mark, double quote, less-than,
      greater-than, vertical bar\<close>
  "reservedChars = [0x5C, 0x2F, 0x3A, 0x2A, 0x3F, 0x22, 0x3C, 0x3E, 0x7C]"

definition isReserved :: "jschar \<Rightarrow> bool" where
  "isReserved c = (c \<in> set reservedChars)"

definition hyphen :: jschar where
  "hyphen = 0x2D"

function replaceReserved :: "jsstring \<Rightarrow> jsstring" where
  \<comment> \<open>\<^verbatim>\<open>.replace(/[\\/:*?"<>|]+/g, '-')\<close>: scanning from the left, every maximal run of
      reserved code units becomes one hyphen\<close>
  "replaceReserved [] = []"
| "replaceReserved (c # cs) =
     (if isReserved c then hyphen # replaceReserved (dropWhile isReserved cs)
      else c # replaceReserved cs)"
  by pat_completeness auto
termination
  by (relation "measure length") (auto simp: less_Suc_eq_le length_dropWhile_le)

definition document :: jsstring where
  "document = lit ''document''"

definition sanitizeFilename :: "jsstring option \<Rightarrow> jsstring" where
  \<comment> \<open>the argument is a string, or \<open>None\<close> for \<^verbatim>\<open>null\<close>/\<^verbatim>\<open>undefined\<close>\<close>
  "sanitizeFilename name =
     (let r = slice0 120 (trim (replaceReserved (orElse name document)))
      in if truthy r then r else document)"

text \<open>An input longer than the cut: 119 letters \<^verbatim>\<open>a\<close>, a space and a \<^verbatim>\<open>b\<close>.\<close>

definition longName :: jsstring where
  "longName = replicate 119 0x61 @ [0x20, 0x62]"

section \<open>URL validation\<close>

text \<open>
  \<^verbatim>\<open>
  function isValidHttpUrl(str) {
    try {
      const u = new URL(str);
      return u.protocol === 'http:' || u.protocol === 'https:';
    } catch { return false; }
  }
  \<close>
  \<^verbatim>\<open>URL\<close> is the platform's parser (WHATWG URL Standard), called without a base. Its
  first states are modelled as the standard gives them: strip leading and trailing C0
  controls and spaces, drop tabs and newlines, read an ASCII letter and then scheme
  characters up to a colon; with no base, an input without such a scheme is a failure.
  Whether the part after the scheme parses (host, port, path) is a parameter
  \<open>afterScheme\<close> of the model.
\<close>

datatype exn = Error (message: jsstring)

definition ToString :: "jsstring option \<Rightarrow> jsstring" where
  \<comment> \<open>string conversion of a string or of \<^verbatim>\<open>undefined\<close>\<close>
  "ToString v = (case v of None \<Rightarrow> lit ''undefined'' | Some s \<Rightarrow> s)"

definition isC0ControlOrSpace :: "jschar \<Rightarrow> bool" where
  "isC0ControlOrSpace c = (c \<le> 0x20)"

definition isAsciiTabOrNewline :: "jschar \<Rightarrow> bool" where
  "isAsciiTabOrNewline c = (c = 0x09 \<or> c = 0x0A \<or> c = 0x0D)"

definition isAsciiAlpha :: "jschar \<Rightarrow> bool" where
  "isAsciiAlpha c = ((0x41 \<le> c \<and> c \<le> 0x5A) \<or> (0x61 \<le> c \<and> c \<le> 0x7A))"

definition isSchemeChar :: "jschar \<Rightarrow> bool" where
  \<comment> \<open>ASCII alphanumeric, plus, minus, full stop\<close>
  "isSchemeChar c =
     (isAsciiAlpha c \<or> (0x30 \<le> c \<and> c \<le> 0x39) \<or> c = 0x2B \<or> c = 0x2D \<or> c = 0x2E)"

definition asciiLower :: "jschar \<Rightarrow> jschar" where
  "asciiLower c = (if 0x41 \<le> c \<and> c \<le> 0x5A then c + 0x20 else c)"

definition parseScheme :: "jsstring \<Rightarrow> (jsstring \<times> jsstring) option" where
  \<comment> \<open>the scheme, lower-cased, and the input after its colon\<close>
  "parseScheme input =
     (let stripped = rev (dropWhile isC0ControlOrSpace
                       (rev (dropWhile isC0ControlOrSpace input)));
          s = filter (\<lambda>c. \<not> isAsciiTabOrNewline c) stripped
      in case s of
           [] \<Rightarrow> None
         | c # cs \<Rightarrow>
             if \<not> isAsciiAlpha c then None
             else (case dropWhile isSchemeChar cs of
                     [] \<Rightarrow> None
                   | d # remaining \<Rightarrow>
                       if d = 0x3A
                       then Some (map asciiLower (c # takeWhile isSchemeChar cs), remaining)
                       else None))"

definition URL_protocol :: "(jsstring \<Rightarrow> jsstring \<Rightarrow> bool) \<Rightarrow> jsstring \<Rightarrow> exn + jsstring" where
  \<comment> \<open>\<^verbatim>\<open>new URL(str).protocol\<close>; \<open>Inl\<close> is the \<^verbatim>\<open>TypeError\<close> of the constructor\<close>
  "URL_protocol afterScheme input =
     (case parseScheme input of
        None \<Rightarrow> Inl (Error (lit ''Invalid URL''))
      | Some (scheme, remaining) \<Rightarrow>
          if afterScheme scheme remaining then Inr (scheme @ lit '':'')
          else Inl (Error (lit ''Invalid URL'')))"

definition isValidHttpUrl :: "(jsstring \<Rightarrow> jsstring \<Rightarrow> bool) \<Rightarrow> jsstring option \<Rightarrow> bool" where
  "isValidHttpUrl afterScheme str =
     (case URL_protocol afterScheme (ToString str) of
        Inr protocol \<Rightarrow> protocol = lit ''http:'' \<or> protocol = lit ''https:''
      | Inl _ \<Rightarrow> False)"

section \<open>Numbers and JSON values\<close>

text \<open>
  A JavaScript number is a double: \<^verbatim>\<open>NaN\<close>, an infinity, or a finite value, which is a
  rational number. The code only compares numbers (\<^verbatim>\<open>Math.max\<close>, \<^verbatim>\<open>Math.min\<close>,
  truthiness) and never computes with them, so a finite double is modelled by the real
  number it is, and both zeros by \<open>0\<close>. The literals \<^verbatim>\<open>0.1\<close> and \<^verbatim>\<open>0.2\<close> are the doubles
  nearest to one tenth and to one fifth.
\<close>

datatype jsnum = NaN | NegInfinity | Finite real | PosInfinity

definition point_one :: real where
  \<comment> \<open>the double written \<^verbatim>\<open>0.1\<close>, that is \<open>3602879701896397 / 2\<^sup>5\<^sup>5\<close>\<close>
  "point_one = 3602879701896397 / 36028797018963968"

definition point_two :: real where
  \<comment> \<open>the double written \<^verbatim>\<open>0.2\<close>, that is \<open>3602879701896397 / 2\<^sup>5\<^sup>4\<close>\<close>
  "point_two = 3602879701896397 / 18014398509481984"

fun num_less :: "jsnum \<Rightarrow> jsnum \<Rightarrow> bool" where
  "num_less NaN _ = False"
| "num_less _ NaN = False"
| "num_less NegInfinity b = (b \<noteq> NegInfinity)"
| "num_less (Finite x) NegInfinity = False"
| "num_less (Finite x) (Finite y) = (x < y)"
| "num_less (Finite x) PosInfinity = True"
| "num_less PosInfinity _ = False"

definition Math_min :: "jsnum \<Rightarrow> jsnum \<Rightarrow> jsnum" where
  "Math_min a b = (if a = NaN \<or> b = NaN then NaN else if num_less b a then b else a)"

definition Math_max :: "jsnum \<Rightarrow> jsnum \<Rightarrow> jsnum" where
  "Math_max a b = (if a = NaN \<or> b = NaN then NaN else if num_less a b then b else a)"

definition num_truthy :: "jsnum \<Rightarrow> bool" where
  \<comment> \<open>\<^verbatim>\<open>0\<close>, \<^verbatim>\<open>-0\<close> and \<^verbatim>\<open>NaN\<close> are the falsy numbers\<close>
  "num_truthy x = (x \<noteq> NaN \<and> x \<noteq> Finite 0)"

definition Number :: "jsnum \<Rightarrow> jsnum" where
  \<comment> \<open>\<^verbatim>\<open>Number(x)\<close> of a number is that number\<close>
  "Number x = x"

definition clampScale :: "jsnum \<Rightarrow> jsnum" where
  \<comment> \<open>\<^verbatim>\<open>Math.max(0.1, Math.min(2, Number(scale) || 1))\<close>\<close>
  "clampScale scale =
     Math_max (Finite point_one)
       (Math_min (Finite 2) (if num_truthy (Number scale) then Number scale else Finite 1))"

datatype jsval =
    Undefined
  | Null
  | Bool bool
  | Num jsnum
  | Str jsstring
  | Arr "jsval list"
  | Obj "(jsstring \<times> jsval) list"

definition nullish :: "jsval \<Rightarrow> bool" where
  "nullish v = (v = Undefined \<or> v = Null)"

fun getNamed :: "jsstring \<Rightarrow> jsval \<Rightarrow> jsval" where
  \<comment> \<open>\<^verbatim>\<open>v.k\<close> for \<open>v\<close> not nullish and \<open>k\<close> one of \<^verbatim>\<open>choices\<close>, \<^verbatim>\<open>message\<close>, \<^verbatim>\<open>content\<close>:
      the property of a parsed JSON object, \<^verbatim>\<open>undefined\<close> on every other value\<close>
  "getNamed k (Obj kvs) = (case map_of kvs k of None \<Rightarrow> Undefined | Some v \<Rightarrow> v)"
| "getNamed k _ = Undefined"

fun getIndex0 :: "jsval \<Rightarrow> jsval" where
  \<comment> \<open>\<^verbatim>\<open>v[0]\<close> for \<open>v\<close> not nullish\<close>
  "getIndex0 (Arr xs) = (case xs of [] \<Rightarrow> Undefined | x # _ \<Rightarrow> x)"
| "getIndex0 (Str s) = (case s of [] \<Rightarrow> Undefined | c # _ \<Rightarrow> Str [c])"
| "getIndex0 (Obj kvs) = (case map_of kvs (lit ''0'') of None \<Rightarrow> Undefined | Some v \<Rightarrow> v)"
| "getIndex0 _ = Undefined"

fun callTrim :: "jsval \<Rightarrow> exn + jsval" where
  \<comment> \<open>\<^verbatim>\<open>v.trim()\<close> for \<open>v\<close> not nullish: only a string has the method\<close>
  "callTrim (Str s) = Inr (Str (trim s))"
| "callTrim _ =
     Inl (Error (lit ''data.choices?.[0]?.message?.content?.trim is not a function''))"

definition completionTitle :: "jsval \<Rightarrow> exn + jsval" where
  \<comment> \<open>\<^verbatim>\<open>data.choices?.[0]?.message?.content?.trim()\<close>\<close>
  "completionTitle data =
     (if data = Null
      then Inl (Error (lit ''Cannot read properties of null (reading 'choices')''))
      else if data = Undefined
      then Inl (Error (lit ''Cannot read properties of undefined (reading 'choices')''))
      else let choices = getNamed (lit ''choices'') data in
        if nullish choices then Inr Undefined
        else let first = getIndex0 choices in
          if nullish first then Inr Undefined
          else let msg = getNamed (lit ''message'') first in
            if nullish msg then Inr Undefined
            else let content = getNamed (lit ''content'') msg in
              if nullish content then Inr Undefined
              else callTrim content)"

definition orNull :: "jsval \<Rightarrow> jsstring option" where
  \<comment> \<open>\<^verbatim>\<open>title || null\<close> for \<open>title\<close> a string or \<^verbatim>\<open>undefined\<close>\<close>
  "orNull title = (case title of Str s \<Rightarrow> if truthy s then Some s else None | _ \<Rightarrow> None)"

section \<open>Configuration\<close>

record process_env =
  env_OPENAI_API_KEY :: "jsstring option"
  env_OPENAI_BASE_URL :: "jsstring option"
  env_OPENAI_MODEL :: "jsstring option"

definition OPENAI_API_KEY :: "process_env \<Rightarrow> jsstring" where
  "OPENAI_API_KEY penv = orElse (env_OPENAI_API_KEY penv) (lit '''')"

definition OPENAI_BASE_URL :: "process_env \<Rightarrow> jsstring" where
  "OPENAI_BASE_URL penv = orElse (env_OPENAI_BASE_URL penv) (lit ''https://api.openai.com/v1'')"

definition OPENAI_MODEL :: "process_env \<Rightarrow> jsstring" where
  "OPENAI_MODEL penv = orElse (env_OPENAI_MODEL penv) (lit ''gpt-4o-mini'')"

section \<open>The outside world\<close>

text \<open>
  Every call that leaves the process (\<^verbatim>\<open>fetch\<close>, the browser automation calls) is an
  event of a trace, and its outcome, a value or a thrown error, is given by an
  environment. The response under construction and the handler's variable
  \<^verbatim>\<open>browser\<close> are part of the state.
\<close>

type_synonym bytes = "8 word list"

datatype browser = Browser

datatype http_request =
    Get jsstring
    \<comment> \<open>\<^verbatim>\<open>fetch(url, { redirect: 'follow' })\<close>\<close>
  | PostJson jsstring "(jsstring \<times> jsstring) list" jsval
    \<comment> \<open>\<^verbatim>\<open>fetch(url, { method: 'POST', headers, body: JSON.stringify(v) })\<close>\<close>

record http_response =
  resp_status :: nat
  resp_text :: "exn + jsstring"
  resp_json :: "exn + jsval"

definition ok :: "http_response \<Rightarrow> bool" where
  "ok r = (200 \<le> resp_status r \<and> resp_status r \<le> 299)"

record pdf_options =
  pdf_format :: jsstring
  pdf_landscape :: bool
  pdf_printBackground :: bool
  pdf_scale :: jsnum
  pdf_margin :: "(jsstring \<times> jsstring) list"

record dom =
  querySelectorText :: "jsstring \<Rightarrow> jsstring option"
  bodyInnerText :: "jsstring option"

datatype event =
    Fetch http_request
  | Launch
  | NewPage
  | SetExtraHTTPHeaders
  | Goto jsstring
  | AddStyleTag
  | Title
  | Evaluate
  | Pdf pdf_options
  | Close

record env =
  fetch :: "http_request \<Rightarrow> exn + http_response"
  launch :: "exn + browser"
  newPage :: "exn + unit"
  setExtraHTTPHeaders :: "exn + unit"
  goto :: "jsstring \<Rightarrow> exn + unit"
  addStyleTag :: "exn + unit"
  title :: "exn + jsstring"
  evaluate :: "exn + dom"
  pdf :: "pdf_options \<Rightarrow> exn + bytes"
  close :: "exn + unit"

datatype body = JsonBody jsval | TextBody jsstring | BinaryBody bytes

record world =
  trace :: "event list"
  res_status :: nat
  res_headers :: "(jsstring \<times> jsstring) list"
  res_body :: "body option"
  browser_var :: "browser option"

definition fresh :: world where
  \<comment> \<open>the state when a handler is entered\<close>
  "fresh = \<lparr>trace = [], res_status = 200, res_headers = [], res_body = None,
            browser_var = None\<rparr>"

type_synonym 'a io = "world \<Rightarrow> (exn + 'a) \<times> world"

definition io_return :: "'a \<Rightarrow> 'a io" where
  "io_return x = (\<lambda>w. (Inr x, w))"

definition io_throw :: "exn \<Rightarrow> 'a io" where
  "io_throw e = (\<lambda>w. (Inl e, w))"

definition io_bind :: "'a io \<Rightarrow> ('a \<Rightarrow> 'b io) \<Rightarrow> 'b io" where
  "io_bind m f = (\<lambda>w. case m w of (Inl e, w') \<Rightarrow> (Inl e, w') | (Inr x, w') \<Rightarrow> f x w')"

definition try_catch :: "'a io \<Rightarrow> (exn \<Rightarrow> 'a io) \<Rightarrow> 'a io" where
  "try_catch m h = (\<lambda>w. case m w of (Inl e, w') \<Rightarrow> h e w' | (Inr x, w') \<Rightarrow> (Inr x, w'))"

definition try_finally :: "'a io \<Rightarrow> unit io \<Rightarrow> 'a io" where
  \<comment> \<open>the finaliser runs after the block however it ended; an error of the finaliser
      replaces the block's outcome\<close>
  "try_finally m fin =
     (\<lambda>w. case m w of (r, w') \<Rightarrow>
        (case fin w' of (Inl e, w'') \<Rightarrow> (Inl e, w'') | (Inr _, w'') \<Rightarrow> (r, w'')))"

definition await :: "exn + 'a \<Rightarrow> 'a io" where
  \<comment> \<open>a settled outcome: its value, or its error thrown\<close>
  "await r = (\<lambda>w. (r, w))"

definition call :: "event \<Rightarrow> exn + 'a \<Rightarrow> 'a io" where
  \<comment> \<open>an outside call: recorded, then settled\<close>
  "call ev r = (\<lambda>w. (r, w\<lparr>trace := trace w @ [ev]\<rparr>))"

definition set_status :: "nat \<Rightarrow> unit io" where
  \<comment> \<open>\<^verbatim>\<open>res.status(n)\<close>\<close>
  "set_status n = (\<lambda>w. (Inr (), w\<lparr>res_status := n\<rparr>))"

definition isHeaderChar :: "jschar \<Rightarrow> bool" where
  \<comment> \<open>the code units the platform accepts in a header value: TAB, \<^verbatim>\<open>0x20\<close> to
      \<^verbatim>\<open>0x7E\<close>, \<^verbatim>\<open>0x80\<close> to \<^verbatim>\<open>0xFF\<close>\<close>
  "isHeaderChar c = (c = 0x09 \<or> (0x20 \<le> c \<and> c \<le> 0x7E) \<or> (0x80 \<le> c \<and> c \<le> 0xFF))"

definition invalidHeaderChar :: "jsstring \<Rightarrow> exn" where
  \<comment> \<open>the platform's \<^verbatim>\<open>ERR_INVALID_CHAR\<close> for the header named \<open>k\<close>\<close>
  \<open>invalidHeaderChar k =
     Error (lit ''Invalid character in header content ["'' @ k @ lit ''"]'')\<close>

definition setHeader :: "jsstring \<Rightarrow> jsstring \<Rightarrow> unit io" where
  \<comment> \<open>\<^verbatim>\<open>res.setHeader(k, v)\<close>, for the two header names of the source, which are valid:
      the platform throws on a value with a code unit it does not accept\<close>
  "setHeader k v =
     (\<lambda>w. if list_all isHeaderChar v
          then (Inr (), w\<lparr>res_headers := res_headers w @ [(k, v)]\<rparr>)
          else (Inl (invalidHeaderChar k), w))"

definition send :: "body \<Rightarrow> unit io" where
  \<comment> \<open>\<^verbatim>\<open>res.send(b)\<close> and \<^verbatim>\<open>res.json(v)\<close>\<close>
  "send b = (\<lambda>w. (Inr (), w\<lparr>res_body := Some b\<rparr>))"

definition set_browser :: "browser \<Rightarrow> unit io" where
  "set_browser b = (\<lambda>w. (Inr (), w\<lparr>browser_var := Some b\<rparr>))"

section \<open>The title suggestion client\<close>

text \<open>
  \<^verbatim>\<open>
  async function suggestTitleFromText(text, url) {
    if (!OPENAI_API_KEY) return null;
    const sys = '...';
    const user = `... URL: ${url} Content (truncated): ${text.slice(0, 6000)}`;
    const res = await fetch(`${OPENAI_BASE_URL}/chat/completions`, { method: 'POST', ... });
    if (!res.ok) throw new Error(`LLM error: ${await res.text()}`);
    const data = await res.json();
    const title = data.choices?.[0]?.message?.content?.trim();
    return title || null;
  }
  \<close>
\<close>

definition newline :: jschar where
  "newline = 0x0A"

definition sys_prompt :: jsstring where
  "sys_prompt = lit (''You create concise, descriptive document titles (max 8 words), ''
                     @ ''no punctuation except hyphens.'')"

definition user_prompt :: "jsstring \<Rightarrow> jsstring \<Rightarrow> jsstring" where
  "user_prompt text url =
     lit (''Suggest a PDF filename title for the following web page. ''
          @ ''Avoid emojis, quotes, or trailing periods.'')
     @ [newline] @ lit ''URL: '' @ url
     @ [newline] @ lit ''Content (truncated): '' @ slice0 6000 text"

definition completion_request :: "process_env \<Rightarrow> jsstring \<Rightarrow> jsstring \<Rightarrow> http_request" where
  "completion_request penv text url =
     PostJson (OPENAI_BASE_URL penv @ lit ''/chat/completions'')
       [(lit ''Authorization'', lit ''Bearer '' @ OPENAI_API_KEY penv),
        (lit ''Content-Type'', lit ''application/json'')]
       (Obj [(lit ''model'', Str (OPENAI_MODEL penv)),
             (lit ''messages'',
                Arr [Obj [(lit ''role'', Str (lit ''system'')), (lit ''content'', Str sys_prompt)],
                     Obj [(lit ''role'', Str (lit ''user'')),
                          (lit ''content'', Str (user_prompt text url))]]),
             (lit ''temperature'', Num (Finite point_two)),
             (lit ''max_tokens'', Num (Finite 24))])"

definition suggestTitleFromText ::
  "process_env \<Rightarrow> env \<Rightarrow> jsstring \<Rightarrow> jsstring \<Rightarrow> (jsstring option) io" where
  \<comment> \<open>the result \<open>None\<close> is \<^verbatim>\<open>null\<close>\<close>
  "suggestTitleFromText penv ev text url =
     (if \<not> truthy (OPENAI_API_KEY penv) then io_return None
      else
        io_bind (call (Fetch (completion_request penv text url))
                   (fetch ev (completion_request penv text url))) (\<lambda>res.
        if \<not> ok res
        then io_bind (await (resp_text res)) (\<lambda>t. io_throw (Error (lit ''LLM error: '' @ t)))
        else
          io_bind (await (resp_json res)) (\<lambda>data.
          io_bind (await (completionTitle data)) (\<lambda>title.
          io_return (orNull title)))))"

section \<open>The endpoints\<close>

text \<open>
  The parsed request body: an object whose fields, where present, have the types the
  handlers expect; \<open>None\<close> is an absent field, and an absent body is \<open>None\<close> itself.
\<close>

record request_body =
  body_url :: "jsstring option"
  body_format :: "jsstring option"
  body_scale :: "jsnum option"
  body_landscape :: "bool option"
  body_printBackground :: "bool option"
  body_useLLM :: "bool option"

definition empty_body :: request_body where
  \<comment> \<open>the object \<^verbatim>\<open>{}\<close>\<close>
  "empty_body = \<lparr>body_url = None, body_format = None, body_scale = None,
                 body_landscape = None, body_printBackground = None, body_useLLM = None\<rparr>"

definition bodyOrEmpty :: "request_body option \<Rightarrow> request_body" where
  \<comment> \<open>\<^verbatim>\<open>req.body || {}\<close>\<close>
  "bodyOrEmpty b = (case b of None \<Rightarrow> empty_body | Some r \<Rightarrow> r)"

definition withDefault :: "'a option \<Rightarrow> 'a \<Rightarrow> 'a" where
  \<comment> \<open>a destructuring default: it replaces an absent field\<close>
  "withDefault v d = (case v of None \<Rightarrow> d | Some x \<Rightarrow> x)"

text \<open>
  \<^verbatim>\<open>
  app.post('/api/suggest-title', async (req, res) => {
    try {
      const { url } = req.body || {};
      if (!isValidHttpUrl(url)) return res.status(400).json({ error: 'Invalid URL' });
      const html = await (await fetch(url, { redirect: 'follow' })).text();
      const title = await suggestTitleFromText(html, url);
      res.json({ title: title ? sanitizeFilename(title) : 'document' });
    } catch (err) {
      res.status(500).json({ error: err.message });
    }
  });
  \<close>
\<close>

definition suggest_title_handler ::
  "process_env \<Rightarrow> (jsstring \<Rightarrow> jsstring \<Rightarrow> bool) \<Rightarrow> env \<Rightarrow> request_body option \<Rightarrow> unit io" where
  "suggest_title_handler penv afterScheme ev reqBody =
     try_catch
       (let url = body_url (bodyOrEmpty reqBody) in
        if \<not> isValidHttpUrl afterScheme url
        then io_bind (set_status 400) (\<lambda>_.
             send (JsonBody (Obj [(lit ''error'', Str (lit ''Invalid URL''))])))
        else
          io_bind (call (Fetch (Get (ToString url))) (fetch ev (Get (ToString url)))) (\<lambda>page.
          io_bind (await (resp_text page)) (\<lambda>html.
          io_bind (suggestTitleFromText penv ev html (ToString url)) (\<lambda>title.
          send (JsonBody (Obj [(lit ''title'',
                  Str (case title of Some t \<Rightarrow> sanitizeFilename (Some t)
                       | None \<Rightarrow> document))]))))))
       (\<lambda>err. io_bind (set_status 500) (\<lambda>_.
               send (JsonBody (Obj [(lit ''error'', Str (message err))]))))"

text \<open>The function evaluated in the page (lines 102 to 117 of \<^verbatim>\<open>back.js\<close>).\<close>

definition candidates :: "jsstring list" where
  \<open>candidates = [lit ''article'', lit ''main'', lit ''section'', lit ''div[role="main"]'',
                 lit ''#content'', lit ''.content'', lit ''.post'', lit ''.article'']\<close>

definition textFrom :: "dom \<Rightarrow> jsstring \<Rightarrow> jsstring" where
  "textFrom d selector = (case querySelectorText d selector of None \<Rightarrow> lit '''' | Some t \<Rightarrow> t)"

definition longestCandidate :: "dom \<Rightarrow> jsstring" where
  "longestCandidate d =
     foldl (\<lambda>txt c. let t = textFrom d c
                     in if truthy t \<and> length t > length txt then t else txt)
       (lit '''') candidates"

definition mainTextOf :: "dom \<Rightarrow> exn + jsstring" where
  \<comment> \<open>\<^verbatim>\<open>document.body\<close> may be \<^verbatim>\<open>null\<close>, and reading its text then throws\<close>
  "mainTextOf d =
     (let txt = longestCandidate d in
      if truthy txt then Inr (slice0 12000 txt)
      else (case bodyInnerText d of
              None \<Rightarrow>
                Inl (Error (lit ''Cannot read properties of null (reading 'innerText')''))
            | Some b \<Rightarrow> Inr (slice0 12000 (orElse (Some b) (lit '''')))))"

text \<open>
  Lines 119 to 127: the filename base, with the optional language-model step inside
  its own \<^verbatim>\<open>try\<close>/\<^verbatim>\<open>catch\<close>.
\<close>

definition chooseFilenameBase ::
  "process_env \<Rightarrow> env \<Rightarrow> bool \<Rightarrow> jsstring \<Rightarrow> jsstring \<Rightarrow> jsstring \<Rightarrow> jsstring io" where
  "chooseFilenameBase penv ev useLLM pageTitle mainText url =
     (let filenameBase = orElse (Some pageTitle) document in
      if useLLM
      then try_catch
             (io_bind (suggestTitleFromText penv ev (orElse (Some mainText) pageTitle) url)
                (\<lambda>llmTitle. io_return (case llmTitle of Some t \<Rightarrow> t | None \<Rightarrow> filenameBase)))
             (\<lambda>e. io_return filenameBase)
      else io_return filenameBase)"

definition pdfOptions :: "jsstring \<Rightarrow> bool \<Rightarrow> bool \<Rightarrow> jsnum \<Rightarrow> pdf_options" where
  "pdfOptions format landscape printBackground scale =
     \<lparr>pdf_format = format, pdf_landscape = landscape,
      pdf_printBackground = printBackground, pdf_scale = clampScale scale,
      pdf_margin = [(lit ''top'', lit ''12mm''), (lit ''right'', lit ''12mm''),
                    (lit ''bottom'', lit ''16mm''), (lit ''left'', lit ''12mm'')]\<rparr>"

definition contentDisposition :: "jsstring \<Rightarrow> jsstring" where
  \<open>contentDisposition filename = lit ''attachment; filename="'' @ filename @ lit ''"''\<close>

text \<open>Lines 84 to 140: the work on the launched browser.\<close>

definition render_page ::
  "process_env \<Rightarrow> env \<Rightarrow> jsstring \<Rightarrow> jsstring \<Rightarrow> jsnum \<Rightarrow> bool \<Rightarrow> bool \<Rightarrow> bool \<Rightarrow> unit io" where
  "render_page penv ev url format scale landscape printBackground useLLM =
     io_bind (call NewPage (newPage ev)) (\<lambda>_.
     io_bind (call SetExtraHTTPHeaders (setExtraHTTPHeaders ev)) (\<lambda>_.
     io_bind (call (Goto url) (goto ev url)) (\<lambda>_.
     io_bind (call AddStyleTag (addStyleTag ev)) (\<lambda>_.
     io_bind (call Title (title ev)) (\<lambda>pageTitle.
     io_bind (call Evaluate (evaluate ev)) (\<lambda>d.
     io_bind (await (mainTextOf d)) (\<lambda>mainText.
     io_bind (chooseFilenameBase penv ev useLLM pageTitle mainText url) (\<lambda>filenameBase.
     io_bind (call (Pdf (pdfOptions format landscape printBackground scale))
                (pdf ev (pdfOptions format landscape printBackground scale))) (\<lambda>pdfBuffer.
     io_bind (setHeader (lit ''Content-Type'') (lit ''application/pdf'')) (\<lambda>_.
     io_bind (setHeader (lit ''Content-Disposition'')
                (contentDisposition (sanitizeFilename (Some filenameBase) @ lit ''.pdf'')))
       (\<lambda>_.
     send (BinaryBody pdfBuffer))))))))))))"

definition let_browser :: "unit io" where
  \<comment> \<open>\<^verbatim>\<open>let browser;\<close> declares the variable, with the value \<^verbatim>\<open>undefined\<close>\<close>
  "let_browser = (\<lambda>w. (Inr (), w\<lparr>browser_var := None\<rparr>))"

definition close_browser :: "env \<Rightarrow> unit io" where
  \<comment> \<open>\<^verbatim>\<open>if (browser) await browser.close();\<close>\<close>
  "close_browser ev =
     (\<lambda>w. case browser_var w of None \<Rightarrow> (Inr (), w) | Some b \<Rightarrow> call Close (close ev) w)"

text \<open>
  \<^verbatim>\<open>
  app.post('/api/print-pdf', async (req, res) => {
    const { url, format = 'A4', scale = 1, landscape = false, printBackground = true,
            useLLM = false } = req.body || {};
    if (!isValidHttpUrl(url)) return res.status(400).send('Invalid URL');
    let browser;
    try {
      browser = await puppeteer.launch({ ... });
      ...
      res.send(pdfBuffer);
    } catch (err) {
      res.status(500).send('Failed to generate PDF: ' + err.message);
    } finally {
      if (browser) await browser.close();
    }
  });
  \<close>
\<close>

definition print_pdf_handler ::
  "process_env \<Rightarrow> (jsstring \<Rightarrow> jsstring \<Rightarrow> bool) \<Rightarrow> env \<Rightarrow> request_body option \<Rightarrow> unit io" where
  "print_pdf_handler penv afterScheme ev reqBody =
     (let b = bodyOrEmpty reqBody;
          url = body_url b;
          format = withDefault (body_format b) (lit ''A4'');
          scale = withDefault (body_scale b) (Finite 1);
          landscape = withDefault (body_landscape b) False;
          printBackground = withDefault (body_printBackground b) True;
          useLLM = withDefault (body_useLLM b) False
      in if \<not> isValidHttpUrl afterScheme url
         then io_bind (set_status 400) (\<lambda>_. send (TextBody (lit ''Invalid URL'')))
         else
           io_bind let_browser (\<lambda>_.
           try_finally
             (try_catch
                (io_bind (call Launch (launch ev)) (\<lambda>b.
                 io_bind (set_browser b) (\<lambda>_.
                 render_page penv ev (ToString url) format scale landscape printBackground
                   useLLM)))
                (\<lambda>err. io_bind (set_status 500) (\<lambda>_.
                        send (TextBody (lit ''Failed to generate PDF: '' @ message err)))))
             (close_browser ev)))"

section \<open>Example inputs\<close>

text \<open>
  A request for \<^verbatim>\<open>http://example.com/\<close> with \<^verbatim>\<open>scale: 10\<close> and \<^verbatim>\<open>useLLM: true\<close>, and an
  environment in which every browser call succeeds, the page answers with a given status
  and the completion provider answers with a given status and the completion
  \<^verbatim>\<open>My Great Article\<close>.
\<close>

definition anyRemainder :: "jsstring \<Rightarrow> jsstring \<Rightarrow> bool" where
  \<comment> \<open>the rest of every URL with a scheme parses\<close>
  "anyRemainder scheme remaining = True"

definition example_url :: jsstring where
  "example_url = lit ''http://example.com/''"

definition example_body :: request_body where
  "example_body = empty_body\<lparr>body_url := Some example_url, body_scale := Some (Finite 10),
                              body_useLLM := Some True\<rparr>"

definition example_penv :: process_env where
  "example_penv = \<lparr>env_OPENAI_API_KEY = Some (lit ''sk-test''), env_OPENAI_BASE_URL = None,
                   env_OPENAI_MODEL = None\<rparr>"

definition no_key_penv :: process_env where
  "no_key_penv = \<lparr>env_OPENAI_API_KEY = None, env_OPENAI_BASE_URL = None,
                  env_OPENAI_MODEL = None\<rparr>"

definition completion :: "jsstring \<Rightarrow> jsval" where
  "completion c =
     Obj [(lit ''choices'',
           Arr [Obj [(lit ''index'', Num (Finite 0)),
                     (lit ''message'', Obj [(lit ''role'', Str (lit ''assistant'')),
                                            (lit ''content'', Str c)])]])]"

definition example_html :: jsstring where
  "example_html = lit ''<html><title>Example Domain</title></html>''"

definition page_response :: "nat \<Rightarrow> http_response" where
  "page_response n =
     \<lparr>resp_status = n, resp_text = Inr example_html,
      resp_json = Inl (Error (lit ''Unexpected token''))\<rparr>"

definition provider_response :: "nat \<Rightarrow> http_response" where
  "provider_response n =
     \<lparr>resp_status = n, resp_text = Inr (lit ''overloaded''),
      resp_json = Inr (completion (lit ''My Great Article''))\<rparr>"

definition example_dom :: dom where
  "example_dom =
     \<lparr>querySelectorText = (\<lambda>selector. None), bodyInnerText = Some (lit ''Example Domain'')\<rparr>"

definition example_pdf :: bytes where
  "example_pdf = [0x25, 0x50, 0x44, 0x46]"

definition example_env :: "nat \<Rightarrow> nat \<Rightarrow> env" where
  "example_env pageStatus providerStatus =
     \<lparr>fetch = (\<lambda>req. case req of
                 Get u \<Rightarrow> Inr (page_response pageStatus)
               | PostJson u h v \<Rightarrow> Inr (provider_response providerStatus)),
      launch = Inr Browser, newPage = Inr (), setExtraHTTPHeaders = Inr (),
      goto = (\<lambda>u. Inr ()), addStyleTag = Inr (), title = Inr (lit ''Example Domain''),
      evaluate = Inr example_dom, pdf = (\<lambda>opts. Inr example_pdf), close = Inr ()\<rparr>"

definition timeout_env :: env where
  \<comment> \<open>the same, with a navigation that times out\<close>
  "timeout_env =
     (example_env 200 200)\<lparr>goto := (\<lambda>u. Inl (Error (lit ''Navigation timeout of 60000 ms exceeded'')))\<rparr>"



definition example_options :: pdf_options where
  "example_options = pdfOptions (lit ''A4'') False True (Finite 10)"

section \<open>Vocabulary of the proofs\<close>

text \<open>
  What a computation may do to the state: only add events that satisfy a predicate to
  the trace (\<open>only_calls\<close>), or add such events and leave the variable \<^verbatim>\<open>browser\<close>
  alone (\<open>extends\<close>).
\<close>

definition only_calls :: "(event \<Rightarrow> bool) \<Rightarrow> 'a io \<Rightarrow> bool" where
  "only_calls P m = (\<forall>w. \<exists>evs. snd (m w) = w\<lparr>trace := trace w @ evs\<rparr> \<and> list_all P evs)"

definition extends :: "(event \<Rightarrow> bool) \<Rightarrow> 'a io \<Rightarrow> bool" where
  "extends P m = (\<forall>w. \<exists>evs. trace (snd (m w)) = trace w @ evs \<and> list_all P evs
                        \<and> browser_var (snd (m w)) = browser_var w)"

fun render_event :: "pdf_options \<Rightarrow> event \<Rightarrow> bool" where
  \<comment> \<open>the events of the work on a launched browser, for given PDF options\<close>
  "render_event opts (Pdf o') = (o' = opts)"
| "render_event opts Close = False"
| "render_event opts Launch = False"
| "render_event opts _ = True"

definition requestOptions :: "request_body option \<Rightarrow> pdf_options" where
  \<comment> \<open>the PDF options the handler computes from a request body\<close>
  "requestOptions reqBody =
     (let b = bodyOrEmpty reqBody
      in pdfOptions (withDefault (body_format b) (lit ''A4''))
           (withDefault (body_landscape b) False)
           (withDefault (body_printBackground b) True)
           (withDefault (body_scale b) (Finite 1)))"


section \<open>Properties of the sanitizer\<close>

lemma document_code_units: "document = [100, 111, 99, 117, 109, 101, 110, 116]"
  by (simp add: document_def lit_def)

lemma hyphen_not_reserved: "\<not> isReserved hyphen"
  by (simp add: isReserved_def hyphen_def reservedChars_def)

lemma hyphen_not_space: "\<not> isWhiteSpace hyphen"
  by (simp add: isWhiteSpace_def hyphen_def)

lemma replaceReserved_clean: "c \<in> set (replaceReserved s) \<Longrightarrow> \<not> isReserved c"
proof (induction s arbitrary: c rule: replaceReserved.induct)
  case 1
  then show ?case by simp
next
  case (2 d ds)
  then show ?case
    by (cases "isReserved d") (auto simp: hyphen_not_reserved)
qed

lemma replaceReserved_fixes_clean:
  "(\<And>c. c \<in> set s \<Longrightarrow> \<not> isReserved c) \<Longrightarrow> replaceReserved s = s"
  by (induction s) auto

lemma length_replaceReserved: "length (replaceReserved s) \<le> length s"
proof (induction s rule: replaceReserved.induct)
  case 1
  then show ?case by simp
next
  case (2 d ds)
  show ?case
  proof (cases "isReserved d")
    case True
    with 2 have "length (replaceReserved (dropWhile isReserved ds))
        \<le> length (dropWhile isReserved ds)"
      by simp
    also have "\<dots> \<le> length ds"
      by (rule length_dropWhile_le)
    finally show ?thesis using True by simp
  next
    case False
    with 2 show ?thesis by simp
  qed
qed

lemma set_trim: "set (trim s) \<subseteq> set s"
proof
  fix c
  assume "c \<in> set (trim s)"
  then have "c \<in> set (dropWhile isWhiteSpace (rev (dropWhile isWhiteSpace s)))"
    by (simp add: trim_def trimEnd_def trimStart_def)
  then have "c \<in> set (rev (dropWhile isWhiteSpace s))"
    by (rule set_dropWhileD)
  then show "c \<in> set s"
    by (auto dest: set_dropWhileD)
qed

lemma length_trimEnd: "length (trimEnd s) \<le> length s"
  using length_dropWhile_le [of isWhiteSpace "rev s"] by (simp add: trimEnd_def)

lemma length_trim: "length (trim s) \<le> length s"
proof -
  have "length (trim s) \<le> length (trimStart s)"
    unfolding trim_def by (rule length_trimEnd)
  also have "\<dots> \<le> length s"
    unfolding trimStart_def by (rule length_dropWhile_le)
  finally show ?thesis .
qed

lemma trimEnd_prefix: "s = trimEnd s @ rev (takeWhile isWhiteSpace (rev s))"
proof -
  have "trimEnd s @ rev (takeWhile isWhiteSpace (rev s))
      = rev (takeWhile isWhiteSpace (rev s) @ dropWhile isWhiteSpace (rev s))"
    unfolding trimEnd_def by (rule rev_append [symmetric])
  also have "\<dots> = s"
    by simp
  finally show ?thesis by simp
qed

lemma hd_trimEnd: "trimEnd s \<noteq> [] \<Longrightarrow> hd (trimEnd s) = hd s"
  using trimEnd_prefix [of s] by (metis hd_append2)

lemma last_trimEnd: "trimEnd s \<noteq> [] \<Longrightarrow> \<not> isWhiteSpace (last (trimEnd s))"
proof -
  assume ne: "trimEnd s \<noteq> []"
  then have d: "dropWhile isWhiteSpace (rev s) \<noteq> []"
    by (simp add: trimEnd_def)
  then have "\<not> isWhiteSpace (hd (dropWhile isWhiteSpace (rev s)))"
    by (rule hd_dropWhile)
  with d show ?thesis
    by (simp add: trimEnd_def last_rev)
qed

lemma trimEnd_nonempty: "s \<noteq> [] \<Longrightarrow> \<not> isWhiteSpace (hd s) \<Longrightarrow> trimEnd s \<noteq> []"
proof
  assume ne: "s \<noteq> []" and h: "\<not> isWhiteSpace (hd s)" and e: "trimEnd s = []"
  from e have "dropWhile isWhiteSpace (rev s) = []"
    by (simp add: trimEnd_def)
  then have "\<forall>c\<in>set (rev s). isWhiteSpace c"
    by simp
  with ne have "isWhiteSpace (hd s)"
    by (cases s) auto
  with h show False by simp
qed

lemma trimEnd_id: "s \<noteq> [] \<Longrightarrow> \<not> isWhiteSpace (last s) \<Longrightarrow> trimEnd s = s"
proof -
  assume ne: "s \<noteq> []" and l: "\<not> isWhiteSpace (last s)"
  from ne have "rev s \<noteq> []" by simp
  moreover from ne l have "\<not> isWhiteSpace (hd (rev s))"
    by (simp add: hd_rev)
  ultimately have "dropWhile isWhiteSpace (rev s) = rev s"
    by (cases "rev s") auto
  then show ?thesis
    by (simp add: trimEnd_def)
qed

lemma trimStart_id: "s \<noteq> [] \<Longrightarrow> \<not> isWhiteSpace (hd s) \<Longrightarrow> trimStart s = s"
  by (cases s) (auto simp: trimStart_def)

lemma hd_trim: "trim s \<noteq> [] \<Longrightarrow> \<not> isWhiteSpace (hd (trim s))"
proof -
  assume ne: "trim s \<noteq> []"
  then have t: "trimEnd (trimStart s) \<noteq> []"
    by (simp add: trim_def)
  then have ts: "trimStart s \<noteq> []"
    by (auto simp: trimEnd_def)
  from t have "hd (trim s) = hd (trimStart s)"
    unfolding trim_def by (rule hd_trimEnd)
  moreover from ts have "\<not> isWhiteSpace (hd (trimStart s))"
    unfolding trimStart_def by (rule hd_dropWhile)
  ultimately show ?thesis by simp
qed

lemma last_trim: "trim s \<noteq> [] \<Longrightarrow> \<not> isWhiteSpace (last (trim s))"
  unfolding trim_def by (rule last_trimEnd)

lemma document_clean: "c \<in> set document \<Longrightarrow> \<not> isReserved c"
  by (auto simp: document_code_units isReserved_def reservedChars_def)

lemma document_no_space: "c \<in> set document \<Longrightarrow> \<not> isWhiteSpace c"
  by (auto simp: document_code_units isWhiteSpace_def)

lemma length_document: "length document = 8"
  by (simp add: document_code_units)

lemma document_nonempty: "document \<noteq> []"
  by (simp add: document_code_units)

text \<open>The shape of every result: the default, or a non-empty cut of a trimmed string.\<close>

lemma sanitizeFilename_unfold:
  "sanitizeFilename name =
     (if take 120 (trim (replaceReserved (orElse name document))) \<noteq> []
      then take 120 (trim (replaceReserved (orElse name document))) else document)"
  by (simp add: sanitizeFilename_def orElse_def truthy_def slice0_def Let_def)

lemma sanitizeFilename_cases:
  obtains (default) "sanitizeFilename name = document"
  | (cut) u where "sanitizeFilename name = take 120 (trim (replaceReserved u))"
      and "take 120 (trim (replaceReserved u)) \<noteq> []"
proof (cases "take 120 (trim (replaceReserved (orElse name document))) = []")
  case True
  then have "sanitizeFilename name = document"
    by (simp add: sanitizeFilename_unfold)
  then show ?thesis by (rule default)
next
  case False
  then have "sanitizeFilename name = take 120 (trim (replaceReserved (orElse name document)))"
    by (simp add: sanitizeFilename_unfold)
  then show ?thesis using False by (rule cut)
qed

lemma sanitizeFilename_nonempty: "sanitizeFilename name \<noteq> []"
  by (rule sanitizeFilename_cases [of name]) (auto simp: document_nonempty)

lemma sanitizeFilename_clean: "c \<in> set (sanitizeFilename name) \<Longrightarrow> \<not> isReserved c"
proof (rule sanitizeFilename_cases [of name])
  assume "c \<in> set (sanitizeFilename name)" and "sanitizeFilename name = document"
  then show ?thesis by (simp add: document_clean)
next
  fix u
  assume "c \<in> set (sanitizeFilename name)"
    and "sanitizeFilename name = take 120 (trim (replaceReserved u))"
  then have "c \<in> set (trim (replaceReserved u))"
    by (auto dest: in_set_takeD)
  then have "c \<in> set (replaceReserved u)"
    using set_trim by blast
  then show ?thesis by (rule replaceReserved_clean)
qed

lemma length_sanitizeFilename: "length (sanitizeFilename name) \<le> 120"
  by (rule sanitizeFilename_cases [of name]) (auto simp: length_document)

lemma hd_sanitizeFilename: "\<not> isWhiteSpace (hd (sanitizeFilename name))"
proof (rule sanitizeFilename_cases [of name])
  assume "sanitizeFilename name = document"
  then show ?thesis
    by (simp add: document_code_units isWhiteSpace_def)
next
  fix u
  assume eq: "sanitizeFilename name = take 120 (trim (replaceReserved u))"
    and ne: "take 120 (trim (replaceReserved u)) \<noteq> []"
  from ne have t: "trim (replaceReserved u) \<noteq> []" by auto
  then have "hd (take 120 (trim (replaceReserved u))) = hd (trim (replaceReserved u))"
    by (cases "trim (replaceReserved u)") auto
  with eq hd_trim [OF t] show ?thesis by simp
qed

text \<open>A second pass over a result only strips trailing white space.\<close>

lemma sanitizeFilename_twice:
  "sanitizeFilename (Some (sanitizeFilename name)) = trimEnd (sanitizeFilename name)"
proof -
  let ?t = "sanitizeFilename name"
  have ne: "?t \<noteq> []" by (rule sanitizeFilename_nonempty)
  have r: "replaceReserved ?t = ?t"
    by (rule replaceReserved_fixes_clean) (rule sanitizeFilename_clean)
  have s: "trimStart ?t = ?t"
    using ne hd_sanitizeFilename by (rule trimStart_id)
  have e: "trimEnd ?t \<noteq> []"
    using ne hd_sanitizeFilename by (rule trimEnd_nonempty)
  have "length (trimEnd ?t) \<le> 120"
    using length_trimEnd [of ?t] length_sanitizeFilename [of name] by simp
  then have k: "take 120 (trimEnd ?t) = trimEnd ?t" by simp
  have n: "orElse (Some ?t) document = ?t"
    using ne by (simp add: orElse_def truthy_def)
  show ?thesis
    using r s e k
    by (simp add: sanitizeFilename_unfold [of "Some ?t"] n trim_def)
qed

lemma trimEnd_fixed_iff: "s \<noteq> [] \<Longrightarrow> trimEnd s = s \<longleftrightarrow> \<not> isWhiteSpace (last s)"
proof
  assume "s \<noteq> []" and "trimEnd s = s"
  then show "\<not> isWhiteSpace (last s)"
    using last_trimEnd [of s] by simp
next
  assume "s \<noteq> []" and "\<not> isWhiteSpace (last s)"
  then show "trimEnd s = s" by (rule trimEnd_id)
qed

lemma length_orElse_document: "length s \<le> 120 \<Longrightarrow> length (orElse (Some s) document) \<le> 120"
  by (simp add: orElse_def truthy_def length_document)

lemma last_sanitizeFilename_short:
  assumes "length s \<le> 120"
  shows "\<not> isWhiteSpace (last (sanitizeFilename (Some s)))"
proof -
  let ?u = "orElse (Some s) document"
  have "length (trim (replaceReserved ?u)) \<le> length ?u"
    using length_trim [of "replaceReserved ?u"] length_replaceReserved [of ?u] by simp
  with assms have "length (trim (replaceReserved ?u)) \<le> 120"
    using length_orElse_document [of s] by simp
  then have fit: "take 120 (trim (replaceReserved ?u)) = trim (replaceReserved ?u)"
    by simp
  show ?thesis
  proof (cases "trim (replaceReserved ?u) = []")
    case True
    with fit have "sanitizeFilename (Some s) = document"
      by (simp add: sanitizeFilename_unfold)
    then show ?thesis
      by (simp add: document_code_units isWhiteSpace_def)
  next
    case False
    with fit have "sanitizeFilename (Some s) = trim (replaceReserved ?u)"
      by (simp add: sanitizeFilename_unfold)
    with False show ?thesis
      by (simp add: last_trim)
  qed
qed

lemmas sanitize_eval =
  sanitizeFilename_def orElse_def truthy_def slice0_def trim_def trimEnd_def trimStart_def
  isWhiteSpace_def isReserved_def reservedChars_def hyphen_def document_def lit_def

lemma lit_append: "lit a @ lit b = lit (a @ b)"
  by (simp add: lit_def)

section \<open>Properties of the URL validator\<close>

lemmas url_eval =
  isValidHttpUrl_def URL_protocol_def parseScheme_def ToString_def isC0ControlOrSpace_def
  isAsciiTabOrNewline_def isAsciiAlpha_def isSchemeChar_def asciiLower_def

text \<open>
  The string \<^verbatim>\<open>undefined\<close> has no colon, hence no scheme: \<^verbatim>\<open>new URL(undefined)\<close> throws,
  whatever the rest of the parser accepts.
\<close>

lemma undefined_invalid: "\<not> isValidHttpUrl afterScheme None"
  by (simp add: url_eval lit_def)

lemma example_url_valid: "isValidHttpUrl anyRemainder (Some example_url)"
  by (simp add: url_eval example_url_def anyRemainder_def lit_def)

section \<open>Properties of the state\<close>

lemmas io_eval =
  io_bind_def io_return_def io_throw_def try_catch_def try_finally_def await_def call_def
  set_status_def setHeader_def send_def set_browser_def let_browser_def close_browser_def

lemmas handler_eval =
  print_pdf_handler_def suggest_title_handler_def render_page_def chooseFilenameBase_def
  suggestTitleFromText_def completion_request_def completionTitle_def orNull_def nullish_def
  ok_def OPENAI_API_KEY_def OPENAI_BASE_URL_def OPENAI_MODEL_def mainTextOf_def
  longestCandidate_def textFrom_def candidates_def pdfOptions_def requestOptions_def
  contentDisposition_def

lemmas example_eval =
  example_url_def example_body_def example_penv_def no_key_penv_def completion_def
  example_html_def page_response_def provider_response_def example_dom_def example_pdf_def
  example_env_def timeout_env_def empty_body_def bodyOrEmpty_def withDefault_def fresh_def
  anyRemainder_def

lemma only_calls_return: "only_calls P (io_return x)"
  unfolding only_calls_def io_return_def
  by (intro allI exI [of _ "[]"]) simp

lemma only_calls_throw: "only_calls P (io_throw e)"
  unfolding only_calls_def io_throw_def
  by (intro allI exI [of _ "[]"]) simp

lemma only_calls_await: "only_calls P (await r)"
  unfolding only_calls_def await_def
  by (intro allI exI [of _ "[]"]) simp

lemma only_calls_call: "P e \<Longrightarrow> only_calls P (call e r)"
  unfolding only_calls_def call_def
  by (intro allI exI [of _ "[e]"]) simp

lemma only_calls_bind:
  assumes m: "only_calls P m" and f: "\<And>x. only_calls P (f x)"
  shows "only_calls P (io_bind m f)"
  unfolding only_calls_def
proof
  fix w
  obtain r w' where mw: "m w = (r, w')" by (cases "m w")
  from m obtain evs where w': "w' = w\<lparr>trace := trace w @ evs\<rparr>" and evs: "list_all P evs"
    unfolding only_calls_def using mw by (metis snd_conv)
  show "\<exists>evs. snd (io_bind m f w) = w\<lparr>trace := trace w @ evs\<rparr> \<and> list_all P evs"
  proof (cases r)
    case (Inl e)
    with mw w' evs show ?thesis
      by (auto simp: io_bind_def)
  next
    case (Inr x)
    from f [of x] obtain evs' where
      "snd (f x w') = w'\<lparr>trace := trace w' @ evs'\<rparr>" and "list_all P evs'"
      unfolding only_calls_def by blast
    with w' evs have "snd (f x w') = w\<lparr>trace := trace w @ (evs @ evs')\<rparr>"
      and "list_all P (evs @ evs')"
      by simp_all
    with mw Inr show ?thesis
      by (auto simp: io_bind_def)
  qed
qed

lemma only_calls_try_catch:
  assumes m: "only_calls P m" and h: "\<And>e. only_calls P (h e)"
  shows "only_calls P (try_catch m h)"
  unfolding only_calls_def
proof
  fix w
  obtain r w' where mw: "m w = (r, w')" by (cases "m w")
  from m obtain evs where w': "w' = w\<lparr>trace := trace w @ evs\<rparr>" and evs: "list_all P evs"
    unfolding only_calls_def using mw by (metis snd_conv)
  show "\<exists>evs. snd (try_catch m h w) = w\<lparr>trace := trace w @ evs\<rparr> \<and> list_all P evs"
  proof (cases r)
    case (Inr x)
    with mw w' evs show ?thesis
      by (auto simp: try_catch_def)
  next
    case (Inl e)
    from h [of e] obtain evs' where
      "snd (h e w') = w'\<lparr>trace := trace w' @ evs'\<rparr>" and "list_all P evs'"
      unfolding only_calls_def by blast
    with w' evs have "snd (h e w') = w\<lparr>trace := trace w @ (evs @ evs')\<rparr>"
      and "list_all P (evs @ evs')"
      by simp_all
    with mw Inl show ?thesis
      by (auto simp: try_catch_def)
  qed
qed

lemma only_calls_suggestTitleFromText:
  assumes "\<And>r. P (Fetch r)"
  shows "only_calls P (suggestTitleFromText penv ev text url)"
  unfolding suggestTitleFromText_def
  by (auto intro!: only_calls_return only_calls_bind only_calls_call only_calls_await
      only_calls_throw assms)

lemma only_calls_chooseFilenameBase:
  assumes "\<And>r. P (Fetch r)"
  shows "only_calls P (chooseFilenameBase penv ev useLLM pageTitle mainText url)"
  unfolding chooseFilenameBase_def Let_def
  by (auto intro!: only_calls_return only_calls_bind only_calls_try_catch
      only_calls_suggestTitleFromText assms)

lemma only_calls_extends: "only_calls P m \<Longrightarrow> extends P m"
  unfolding only_calls_def extends_def
proof
  fix w
  assume "\<forall>w. \<exists>evs. snd (m w) = w\<lparr>trace := trace w @ evs\<rparr> \<and> list_all P evs"
  then obtain evs where "snd (m w) = w\<lparr>trace := trace w @ evs\<rparr>" and "list_all P evs"
    by blast
  then show "\<exists>evs. trace (snd (m w)) = trace w @ evs \<and> list_all P evs
      \<and> browser_var (snd (m w)) = browser_var w"
    by (intro exI [of _ evs]) simp
qed

lemma extends_set_status: "extends P (set_status n)"
  unfolding extends_def set_status_def by (intro allI exI [of _ "[]"]) simp

lemma extends_setHeader: "extends P (setHeader k v)"
  unfolding extends_def setHeader_def by (intro allI exI [of _ "[]"]) simp

lemma extends_send: "extends P (send b)"
  unfolding extends_def send_def by (intro allI exI [of _ "[]"]) simp

lemma extends_bind:
  assumes m: "extends P m" and f: "\<And>x. extends P (f x)"
  shows "extends P (io_bind m f)"
  unfolding extends_def
proof
  fix w
  obtain r w' where mw: "m w = (r, w')" by (cases "m w")
  from m obtain evs where w': "trace w' = trace w @ evs" "browser_var w' = browser_var w"
    and evs: "list_all P evs"
    unfolding extends_def using mw by (metis snd_conv)
  show "\<exists>evs. trace (snd (io_bind m f w)) = trace w @ evs \<and> list_all P evs
      \<and> browser_var (snd (io_bind m f w)) = browser_var w"
  proof (cases r)
    case (Inl e)
    with mw w' evs show ?thesis
      by (auto simp: io_bind_def)
  next
    case (Inr x)
    from f [of x] obtain evs' where
      "trace (snd (f x w')) = trace w' @ evs'" and "list_all P evs'"
      and "browser_var (snd (f x w')) = browser_var w'"
      unfolding extends_def by blast
    with w' evs have "trace (snd (f x w')) = trace w @ (evs @ evs')"
      and "list_all P (evs @ evs')" and "browser_var (snd (f x w')) = browser_var w"
      by simp_all
    with mw Inr show ?thesis
      by (auto simp: io_bind_def)
  qed
qed

lemma extends_try_catch:
  assumes m: "extends P m" and h: "\<And>e. extends P (h e)"
  shows "extends P (try_catch m h)"
  unfolding extends_def
proof
  fix w
  obtain r w' where mw: "m w = (r, w')" by (cases "m w")
  from m obtain evs where w': "trace w' = trace w @ evs" "browser_var w' = browser_var w"
    and evs: "list_all P evs"
    unfolding extends_def using mw by (metis snd_conv)
  show "\<exists>evs. trace (snd (try_catch m h w)) = trace w @ evs \<and> list_all P evs
      \<and> browser_var (snd (try_catch m h w)) = browser_var w"
  proof (cases r)
    case (Inr x)
    with mw w' evs show ?thesis
      by (auto simp: try_catch_def)
  next
    case (Inl e)
    from h [of e] obtain evs' where
      "trace (snd (h e w')) = trace w' @ evs'" and "list_all P evs'"
      and "browser_var (snd (h e w')) = browser_var w'"
      unfolding extends_def by blast
    with w' evs have "trace (snd (h e w')) = trace w @ (evs @ evs')"
      and "list_all P (evs @ evs')" and "browser_var (snd (h e w')) = browser_var w"
      by simp_all
    with mw Inl show ?thesis
      by (auto simp: try_catch_def)
  qed
qed

section \<open>Properties of the title suggestion client\<close>


lemma suggestTitleFromText_fetch_cong:
  "fetch ev' (completion_request penv text url) = fetch ev (completion_request penv text url)
   \<Longrightarrow> suggestTitleFromText penv ev' text url = suggestTitleFromText penv ev text url"
  by (simp add: suggestTitleFromText_def)

lemma getNamed_nullish: "nullish v \<Longrightarrow> getNamed k v = Undefined"
  by (auto simp: nullish_def)

lemma getIndex0_nullish: "nullish v \<Longrightarrow> getIndex0 v = Undefined"
  by (auto simp: nullish_def)

lemma completionTitle_content:
  assumes "getNamed (lit ''content'')
             (getNamed (lit ''message'') (getIndex0 (getNamed (lit ''choices'') data))) = Str s"
  shows "completionTitle data = Inr (Str (trim s))"
proof -
  let ?choices = "getNamed (lit ''choices'') data"
  let ?first = "getIndex0 ?choices"
  let ?msg = "getNamed (lit ''message'') ?first"
  have m: "\<not> nullish ?msg"
    using assms getNamed_nullish [of ?msg "lit ''content''"] by auto
  then have f: "\<not> nullish ?first"
    using getNamed_nullish [of ?first "lit ''message''"] by (auto simp: nullish_def)
  then have c: "\<not> nullish ?choices"
    using getIndex0_nullish [of ?choices] by (auto simp: nullish_def)
  then have d: "\<not> nullish data"
    using getNamed_nullish [of data "lit ''choices''"] by (auto simp: nullish_def)
  have n: "\<not> nullish (Str s)"
    by (simp add: nullish_def)
  from m f c d n assms show ?thesis
    by (simp add: completionTitle_def Let_def nullish_def)
qed

lemma trim_title: "trim (lit ''My Great Article'') = lit ''My Great Article''"
  by (simp add: trim_def trimEnd_def trimStart_def isWhiteSpace_def lit_def)

lemma sanitize_title:
  "sanitizeFilename (Some (lit ''My Great Article'')) = lit ''My Great Article''"
  by (simp add: sanitize_eval)

section \<open>Properties of the endpoints\<close>

lemma io_bind_call: "io_bind (call e (Inr x)) f = (\<lambda>w. f x (w\<lparr>trace := trace w @ [e]\<rparr>))"
  by (simp add: io_bind_def call_def)

lemma provider_error_is_500:
  assumes "isValidHttpUrl afterScheme (Some url)" and "body_url b = Some url"
    and "truthy (OPENAI_API_KEY penv)"
    and "fetch ev (Get url) = Inr page" and "resp_text page = Inr html"
    and "fetch ev (completion_request penv html url) = Inr res"
    and "\<not> ok res" and "resp_text res = Inr t"
  shows "res_status (snd (suggest_title_handler penv afterScheme ev (Some b) fresh)) = 500
      \<and> res_body (snd (suggest_title_handler penv afterScheme ev (Some b) fresh))
          = Some (JsonBody (Obj [(lit ''error'', Str (lit ''LLM error: '' @ t))]))"
  using assms
  by (simp add: suggest_title_handler_def suggestTitleFromText_def Let_def bodyOrEmpty_def
      ToString_def io_eval fresh_def)

lemma page_status_ignored:
  assumes "fetch ev (Get (ToString (body_url (bodyOrEmpty reqBody)))) = Inr page"
  shows "suggest_title_handler penv afterScheme
          (ev\<lparr>fetch := (fetch ev)(Get (ToString (body_url (bodyOrEmpty reqBody)))
                          := Inr (page\<lparr>resp_status := n\<rparr>))\<rparr>) reqBody
        = suggest_title_handler penv afterScheme ev reqBody"
proof -
  let ?u = "ToString (body_url (bodyOrEmpty reqBody))"
  let ?ev2 = "ev\<lparr>fetch := (fetch ev)(Get ?u := Inr (page\<lparr>resp_status := n\<rparr>))\<rparr>"
  have s: "suggestTitleFromText penv ?ev2 html ?u = suggestTitleFromText penv ev html ?u"
    for html
    by (rule suggestTitleFromText_fetch_cong) (simp add: completion_request_def)
  show ?thesis
    using assms by (simp add: suggest_title_handler_def Let_def s io_bind_call)
qed




lemma extends_render_page:
  "extends (render_event (pdfOptions format landscape printBackground scale))
     (render_page penv ev url format scale landscape printBackground useLLM)"
  unfolding render_page_def
  by (intro extends_bind extends_send extends_setHeader only_calls_extends only_calls_call
      only_calls_await only_calls_chooseFilenameBase) simp_all

lemma extends_failure_response:
  "extends P (io_bind (set_status 500) (\<lambda>_. send (TextBody t)))"
  by (intro extends_bind extends_set_status extends_send)

text \<open>The \<^verbatim>\<open>try\<close>/\<^verbatim>\<open>catch\<close> of the PDF endpoint, once the browser is launched.\<close>

lemma extends_guarded:
  "extends (render_event (pdfOptions format landscape printBackground scale))
     (try_catch (render_page penv ev url format scale landscape printBackground useLLM)
        (\<lambda>err. io_bind (set_status 500) (\<lambda>_.
                send (TextBody (lit ''Failed to generate PDF: '' @ message err)))))"
  by (intro extends_try_catch extends_render_page extends_failure_response)

lemma print_pdf_handler_launched:
  assumes valid: "isValidHttpUrl afterScheme (body_url (bodyOrEmpty reqBody))"
    and l: "launch ev = Inr b"
  shows "\<exists>evs. trace (snd (print_pdf_handler penv afterScheme ev reqBody w))
            = trace w @ [Launch] @ evs @ [Close]
          \<and> list_all (render_event (requestOptions reqBody)) evs"
proof -
  let ?bd = "bodyOrEmpty reqBody"
  let ?G = "try_catch
     (render_page penv ev (ToString (body_url ?bd)) (withDefault (body_format ?bd) (lit ''A4''))
        (withDefault (body_scale ?bd) (Finite 1)) (withDefault (body_landscape ?bd) False)
        (withDefault (body_printBackground ?bd) True) (withDefault (body_useLLM ?bd) False))
     (\<lambda>err. io_bind (set_status 500) (\<lambda>_.
             send (TextBody (lit ''Failed to generate PDF: '' @ message err))))"
  let ?w1 = "w\<lparr>trace := trace w @ [Launch], browser_var := Some b\<rparr>"
  have run: "print_pdf_handler penv afterScheme ev reqBody w
      = try_finally ?G (close_browser ev) ?w1"
    using valid l
    by (simp add: print_pdf_handler_def Let_def io_bind_def let_browser_def try_finally_def
        try_catch_def call_def set_browser_def)
  from extends_guarded obtain evs where
    t: "trace (snd (?G ?w1)) = trace ?w1 @ evs"
    and p: "list_all (render_event (requestOptions reqBody)) evs"
    and v: "browser_var (snd (?G ?w1)) = browser_var ?w1"
    unfolding extends_def requestOptions_def Let_def by blast
  obtain r w2 where g: "?G ?w1 = (r, w2)" by (cases "?G ?w1")
  with t v have "trace w2 = trace w @ [Launch] @ evs" and "browser_var w2 = Some b"
    by simp_all
  then have "trace (snd (try_finally ?G (close_browser ev) ?w1))
      = trace w @ [Launch] @ evs @ [Close]"
    using g by (simp add: try_finally_def close_browser_def call_def split: sum.splits)
  with run p show ?thesis by auto
qed

lemma print_pdf_handler_invalid:
  "\<not> isValidHttpUrl afterScheme (body_url (bodyOrEmpty reqBody)) \<Longrightarrow>
   trace (snd (print_pdf_handler penv afterScheme ev reqBody w)) = trace w"
  by (simp add: print_pdf_handler_def Let_def io_eval)

lemma print_pdf_handler_not_launched:
  "isValidHttpUrl afterScheme (body_url (bodyOrEmpty reqBody)) \<Longrightarrow> launch ev = Inl e \<Longrightarrow>
   trace (snd (print_pdf_handler penv afterScheme ev reqBody w)) = trace w @ [Launch]"
  by (simp add: print_pdf_handler_def Let_def io_eval)

lemma print_pdf_handler_pdf_events:
  assumes "Pdf opts \<in> set (trace (snd (print_pdf_handler penv afterScheme ev reqBody w)))"
  shows "Pdf opts \<in> set (trace w) \<or> opts = requestOptions reqBody"
proof (cases "isValidHttpUrl afterScheme (body_url (bodyOrEmpty reqBody))")
  case False
  with assms show ?thesis
    by (simp add: print_pdf_handler_invalid)
next
  case valid: True
  show ?thesis
  proof (cases "launch ev")
    case (Inl e)
    with valid assms show ?thesis
      by (simp add: print_pdf_handler_not_launched)
  next
    case (Inr b)
    from print_pdf_handler_launched [OF valid Inr, of penv w] obtain evs where
      t: "trace (snd (print_pdf_handler penv afterScheme ev reqBody w))
            = trace w @ [Launch] @ evs @ [Close]"
      and p: "list_all (render_event (requestOptions reqBody)) evs"
      by blast
    from assms t have "Pdf opts \<in> set (trace w) \<or> Pdf opts \<in> set evs"
      by auto
    with p show ?thesis
      by (auto simp: list_all_iff)
  qed
qed

lemmas num_eval = clampScale_def Math_max_def Math_min_def num_truthy_def Number_def

lemma point_one_bounds: "0 < point_one" "point_one < 1"
  by (simp_all add: point_one_def)

text \<open>The example request, run without a key: the calls made, in order.\<close>

lemma example_trace:
  "trace (snd (print_pdf_handler no_key_penv anyRemainder (example_env 200 200)
      (Some example_body) fresh))
   = [Launch, NewPage, SetExtraHTTPHeaders, Goto example_url, AddStyleTag, Title, Evaluate,
      Pdf example_options, Close]"
  using example_url_valid
  by (simp add: handler_eval io_eval example_eval example_options_def orElse_def truthy_def
      slice0_def lit_def ToString_def)

lemma example_key: "truthy (OPENAI_API_KEY example_penv)"
  by (simp add: OPENAI_API_KEY_def example_penv_def orElse_def truthy_def lit_def)

section \<open>Claims about the sanitizer\<close>

text \<open>
  Claim C4, as amended. The sanitizer maps the empty string and a \<^verbatim>\<open>null\<close> or absent
  argument to the default \<^verbatim>\<open>document\<close>; the string \<^verbatim>\<open>***\<close> is a run of reserved
  characters, which becomes the single hyphen \<^verbatim>\<open>-\<close>, and that is the result.
\<close>

theorem sanitizeFilename_defaults:
  "sanitizeFilename (Some (lit '''')) = lit ''document''
   \<and> sanitizeFilename None = lit ''document''
   \<and> sanitizeFilename (Some (lit ''***'')) = lit ''-''"
  by (simp add: sanitize_eval)

text \<open>
  Claim C4 as stated fails: the result for \<^verbatim>\<open>***\<close> is not \<^verbatim>\<open>document\<close>.
\<close>

theorem sanitizeFilename_stars_not_document:
  "sanitizeFilename (Some (lit ''***'')) \<noteq> lit ''document''"
  by (simp add: sanitize_eval)

text \<open>
  Claim C5. For every argument, the result of the sanitizer contains none of the nine
  reserved characters, and it has at most 120 code units.
\<close>

theorem sanitizeFilename_reserved_free_and_bounded:
  "set (sanitizeFilename name) \<inter> set reservedChars = {}
   \<and> length (sanitizeFilename name) \<le> 120"
  using sanitizeFilename_clean [of _ name] length_sanitizeFilename [of name]
  by (auto simp: isReserved_def)

text \<open>
  Claim C6 as stated fails. The sanitizer trims before it cuts to 120 code units, so a
  cut can end in a space, which a second pass trims: on 119 letters \<^verbatim>\<open>a\<close>, a space and
  a \<^verbatim>\<open>b\<close>, the first pass gives the letters and the space, the second the letters.
\<close>

theorem sanitizeFilename_not_idempotent:
  "sanitizeFilename (Some (sanitizeFilename (Some longName)))
     \<noteq> sanitizeFilename (Some longName)"
  unfolding longName_def by code_simp

text \<open>
  Claim C6, as amended. Sanitizing a result again gives the same result exactly when
  the result does not end in a white-space character; this is so for every input of
  at most 120 code units.
\<close>

theorem sanitizeFilename_idempotent_iff:
  "(sanitizeFilename (Some (sanitizeFilename (Some s))) = sanitizeFilename (Some s)
      \<longleftrightarrow> \<not> isWhiteSpace (last (sanitizeFilename (Some s))))
   \<and> (length s \<le> 120 \<longrightarrow>
        sanitizeFilename (Some (sanitizeFilename (Some s))) = sanitizeFilename (Some s))"
  using trimEnd_fixed_iff [OF sanitizeFilename_nonempty, of "Some s"]
    last_sanitizeFilename_short [of s]
  by (simp add: sanitizeFilename_twice)

theorem sanitizeFilename_idempotent_witness:
  "length (lit ''a b'') \<le> 120
   \<and> \<not> isWhiteSpace (last (sanitizeFilename (Some (lit ''a b''))))
   \<and> sanitizeFilename (Some (sanitizeFilename (Some (lit ''a b''))))
       = sanitizeFilename (Some (lit ''a b''))"
  using sanitizeFilename_idempotent_iff [of "lit ''a b''"] by (simp add: sanitize_eval)

section \<open>Claims about the title suggestion client\<close>

text \<open>
  Claim C8. When no API key is configured (the variable is absent or empty), the client
  returns \<^verbatim>\<open>null\<close> for every text and URL, in every environment: it does not throw, and
  it leaves the state as it was, so it makes no call at all.
\<close>

theorem suggestTitleFromText_disabled:
  "env_OPENAI_API_KEY penv = None \<or> env_OPENAI_API_KEY penv = Some (lit '''')
   \<Longrightarrow> suggestTitleFromText penv ev text url w = (Inr None, w)"
  by (auto simp: suggestTitleFromText_def OPENAI_API_KEY_def orElse_def truthy_def
      io_return_def lit_def)

theorem suggestTitleFromText_disabled_witness:
  "env_OPENAI_API_KEY no_key_penv = None
   \<and> suggestTitleFromText no_key_penv (example_env 200 200) (lit ''Example Domain'')
       example_url fresh = (Inr None, fresh)"
  using suggestTitleFromText_disabled
    [of no_key_penv "example_env 200 200" "lit ''Example Domain''" example_url fresh]
  by (simp add: no_key_penv_def)

section \<open>Claims about the title endpoint\<close>

text \<open>
  Claim C9 as stated fails. With a valid URL, a key, and a provider that returns the
  completion \<^verbatim>\<open>My Great Article\<close>, the endpoint answers with the title
  \<^verbatim>\<open>My Great Article\<close>: a space is not a reserved character, and no hyphen is put in.
\<close>

theorem suggest_title_keeps_spaces:
  "res_body (snd (suggest_title_handler example_penv anyRemainder (example_env 200 200)
        (Some example_body) fresh))
     = Some (JsonBody (Obj [(lit ''title'', Str (lit ''My Great Article''))]))
   \<and> lit ''My Great Article'' \<noteq> lit ''My-Great-Article''"
  using example_url_valid
  by (simp add: handler_eval io_eval example_eval sanitize_eval ToString_def)

text \<open>
  Claim C9, as amended. For a request with a valid URL and a key configured, where the
  page is fetched and the provider answers with success and a JSON body whose
  \<^verbatim>\<open>choices[0].message.content\<close> is \<^verbatim>\<open>My Great Article\<close>, the endpoint returns normally
  and responds 200 with the body \<^verbatim>\<open>{title: "My Great Article"}\<close>.
\<close>

theorem suggest_title_completion:
  assumes valid: "isValidHttpUrl afterScheme (Some url)" and url: "body_url b = Some url"
    and key: "truthy (OPENAI_API_KEY penv)"
    and page: "fetch ev (Get url) = Inr page" "resp_text page = Inr html"
    and provider: "fetch ev (completion_request penv html url) = Inr res" "ok res"
      "resp_json res = Inr data"
    and content: "getNamed (lit ''content'')
        (getNamed (lit ''message'') (getIndex0 (getNamed (lit ''choices'') data)))
      = Str (lit ''My Great Article'')"
  shows "fst (suggest_title_handler penv afterScheme ev (Some b) fresh) = Inr ()
    \<and> res_status (snd (suggest_title_handler penv afterScheme ev (Some b) fresh)) = 200
    \<and> res_body (snd (suggest_title_handler penv afterScheme ev (Some b) fresh))
        = Some (JsonBody (Obj [(lit ''title'', Str (lit ''My Great Article''))]))"
proof -
  have t: "truthy (lit ''My Great Article'')"
    by (simp add: truthy_def lit_def)
  show ?thesis
    using valid url key page provider t
    by (simp add: suggest_title_handler_def suggestTitleFromText_def Let_def bodyOrEmpty_def
        ToString_def io_eval completionTitle_content [OF content] trim_title orNull_def
        sanitize_title fresh_def)
qed

theorem suggest_title_completion_witness:
  "isValidHttpUrl anyRemainder (Some example_url)
   \<and> body_url example_body = Some example_url
   \<and> truthy (OPENAI_API_KEY example_penv)
   \<and> fetch (example_env 200 200) (Get example_url) = Inr (page_response 200)
   \<and> resp_text (page_response 200) = Inr example_html
   \<and> fetch (example_env 200 200) (completion_request example_penv example_html example_url)
       = Inr (provider_response 200)
   \<and> ok (provider_response 200)
   \<and> resp_json (provider_response 200) = Inr (completion (lit ''My Great Article''))
   \<and> getNamed (lit ''content'')
        (getNamed (lit ''message'')
           (getIndex0 (getNamed (lit ''choices'') (completion (lit ''My Great Article'')))))
       = Str (lit ''My Great Article'')
   \<and> fst (suggest_title_handler example_penv anyRemainder (example_env 200 200)
        (Some example_body) fresh) = Inr ()
   \<and> res_status (snd (suggest_title_handler example_penv anyRemainder (example_env 200 200)
        (Some example_body) fresh)) = 200
   \<and> res_body (snd (suggest_title_handler example_penv anyRemainder (example_env 200 200)
        (Some example_body) fresh))
       = Some (JsonBody (Obj [(lit ''title'', Str (lit ''My Great Article''))]))"
proof -
  have valid: "isValidHttpUrl anyRemainder (Some example_url)"
    by (rule example_url_valid)
  have url: "body_url example_body = Some example_url"
    by (simp add: example_body_def)
  have page: "fetch (example_env 200 200) (Get example_url) = Inr (page_response 200)"
    by (simp add: example_env_def)
  have html: "resp_text (page_response 200) = Inr example_html"
    by (simp add: page_response_def)
  have res: "fetch (example_env 200 200)
      (completion_request example_penv example_html example_url) = Inr (provider_response 200)"
    by (simp add: example_env_def completion_request_def)
  have ok: "ok (provider_response 200)"
    by (simp add: ok_def provider_response_def)
  have data: "resp_json (provider_response 200) = Inr (completion (lit ''My Great Article''))"
    by (simp add: provider_response_def)
  have content: "getNamed (lit ''content'')
      (getNamed (lit ''message'')
         (getIndex0 (getNamed (lit ''choices'') (completion (lit ''My Great Article'')))))
      = Str (lit ''My Great Article'')"
    by (simp add: completion_def lit_def)
  from suggest_title_completion [OF valid url example_key page html res ok data content]
    valid url example_key page html res ok data content
  show ?thesis by blast
qed

text \<open>
  Claim C3 as stated fails. The page of the example answers 404, the provider answers
  with the completion, and the endpoint responds 200 with the title made from it: the
  status of the fetched page is never looked at.
\<close>

theorem suggest_title_page_404_not_500:
  "\<not> ok (page_response 404)
   \<and> fetch (example_env 404 200) (Get example_url) = Inr (page_response 404)
   \<and> res_status (snd (suggest_title_handler example_penv anyRemainder (example_env 404 200)
        (Some example_body) fresh)) = 200
   \<and> res_body (snd (suggest_title_handler example_penv anyRemainder (example_env 404 200)
        (Some example_body) fresh))
       = Some (JsonBody (Obj [(lit ''title'', Str (lit ''My Great Article''))]))"
  using example_url_valid
  by (simp add: handler_eval io_eval example_eval sanitize_eval ToString_def)

text \<open>
  Claim C3, as amended. On the title endpoint, a non-success response of the completion
  provider surfaces as an error, answered with 500 and the message \<^verbatim>\<open>LLM error: \<close>
  followed by the provider's body. The status of the fetched page is not examined: the
  endpoint does the same whatever status the page's response has.
\<close>

theorem suggest_title_upstream_errors:
  "(isValidHttpUrl afterScheme (Some url) \<and> body_url b = Some url
      \<and> truthy (OPENAI_API_KEY penv)
      \<and> fetch ev (Get url) = Inr page \<and> resp_text page = Inr html
      \<and> fetch ev (completion_request penv html url) = Inr res
      \<and> \<not> ok res \<and> resp_text res = Inr t
    \<longrightarrow> res_status (snd (suggest_title_handler penv afterScheme ev (Some b) fresh)) = 500
      \<and> res_body (snd (suggest_title_handler penv afterScheme ev (Some b) fresh))
          = Some (JsonBody (Obj [(lit ''error'', Str (lit ''LLM error: '' @ t))])))
   \<and> (fetch ev (Get (ToString (body_url (bodyOrEmpty reqBody)))) = Inr page
    \<longrightarrow> suggest_title_handler penv afterScheme
          (ev\<lparr>fetch := (fetch ev)(Get (ToString (body_url (bodyOrEmpty reqBody)))
                          := Inr (page\<lparr>resp_status := n\<rparr>))\<rparr>) reqBody w
        = suggest_title_handler penv afterScheme ev reqBody w)"
  using provider_error_is_500 [of afterScheme url b penv ev page html res t]
    page_status_ignored [of ev reqBody page penv afterScheme n]
  by simp

theorem suggest_title_upstream_errors_witness:
  "isValidHttpUrl anyRemainder (Some example_url) \<and> body_url example_body = Some example_url
   \<and> truthy (OPENAI_API_KEY example_penv)
   \<and> fetch (example_env 404 503) (Get example_url) = Inr (page_response 404)
   \<and> resp_text (page_response 404) = Inr example_html
   \<and> fetch (example_env 404 503) (completion_request example_penv example_html example_url)
       = Inr (provider_response 503)
   \<and> \<not> ok (provider_response 503)
   \<and> resp_text (provider_response 503) = Inr (lit ''overloaded'')
   \<and> fetch (example_env 404 503) (Get (ToString (body_url (bodyOrEmpty (Some example_body)))))
       = Inr (page_response 404)
   \<and> res_status (snd (suggest_title_handler example_penv anyRemainder (example_env 404 503)
        (Some example_body) fresh)) = 500
   \<and> res_body (snd (suggest_title_handler example_penv anyRemainder (example_env 404 503)
        (Some example_body) fresh))
       = Some (JsonBody (Obj [(lit ''error'', Str (lit ''LLM error: '' @ lit ''overloaded''))]))
   \<and> suggest_title_handler example_penv anyRemainder
        ((example_env 404 503)\<lparr>fetch := (fetch (example_env 404 503))
           (Get (ToString (body_url (bodyOrEmpty (Some example_body))))
              := Inr ((page_response 404)\<lparr>resp_status := 200\<rparr>))\<rparr>) (Some example_body) fresh
       = suggest_title_handler example_penv anyRemainder (example_env 404 503)
           (Some example_body) fresh"
proof -
  have valid: "isValidHttpUrl anyRemainder (Some example_url)"
    by (rule example_url_valid)
  have url: "body_url example_body = Some example_url"
    by (simp add: example_body_def)
  have page: "fetch (example_env 404 503) (Get example_url) = Inr (page_response 404)"
    by (simp add: example_env_def)
  have html: "resp_text (page_response 404) = Inr example_html"
    by (simp add: page_response_def)
  have res: "fetch (example_env 404 503)
      (completion_request example_penv example_html example_url) = Inr (provider_response 503)"
    by (simp add: example_env_def completion_request_def)
  have nok: "\<not> ok (provider_response 503)"
    by (simp add: ok_def provider_response_def)
  have t: "resp_text (provider_response 503) = Inr (lit ''overloaded'')"
    by (simp add: provider_response_def)
  have page': "fetch (example_env 404 503)
      (Get (ToString (body_url (bodyOrEmpty (Some example_body))))) = Inr (page_response 404)"
    by (simp add: example_env_def)
  from suggest_title_upstream_errors
      [of anyRemainder example_url example_body example_penv "example_env 404 503"
        "page_response 404" example_html "provider_response 503" "lit ''overloaded''"
        "Some example_body" 200 fresh]
    valid url example_key page html res nok t page'
  show ?thesis
    by blast
qed

section \<open>Claims about the PDF endpoint\<close>

text \<open>
  Claim C1. In every run of the PDF handler in which the URL is valid and the launch of
  the browser succeeds, whatever the later calls do (return or throw), the trace of the
  handler is the launch, then the calls of the work on the page, none of which is a
  close, then the close of the browser as the last event before the handler returns.
\<close>

theorem print_pdf_closes_browser:
  assumes "isValidHttpUrl afterScheme (body_url (bodyOrEmpty reqBody))"
    and "launch ev = Inr b"
  shows "\<exists>evs. trace (snd (print_pdf_handler penv afterScheme ev reqBody w))
            = trace w @ [Launch] @ evs @ [Close] \<and> Close \<notin> set evs"
proof -
  from print_pdf_handler_launched [OF assms, of penv w] obtain evs where
    t: "trace (snd (print_pdf_handler penv afterScheme ev reqBody w))
          = trace w @ [Launch] @ evs @ [Close]"
    and p: "list_all (render_event (requestOptions reqBody)) evs"
    by blast
  from p have "Close \<notin> set evs"
    by (auto simp: list_all_iff)
  with t show ?thesis by blast
qed

theorem print_pdf_closes_browser_witness:
  "isValidHttpUrl anyRemainder (body_url (bodyOrEmpty (Some example_body)))
   \<and> launch timeout_env = Inr Browser
   \<and> goto timeout_env example_url
       = Inl (Error (lit ''Navigation timeout of 60000 ms exceeded''))
   \<and> (\<exists>evs. trace (snd (print_pdf_handler example_penv anyRemainder timeout_env
           (Some example_body) fresh))
         = trace fresh @ [Launch] @ evs @ [Close] \<and> Close \<notin> set evs)"
proof -
  have valid: "isValidHttpUrl anyRemainder (body_url (bodyOrEmpty (Some example_body)))"
    using example_url_valid by (simp add: bodyOrEmpty_def example_body_def)
  have l: "launch timeout_env = Inr Browser"
    by (simp add: timeout_env_def example_env_def)
  have g: "goto timeout_env example_url
      = Inl (Error (lit ''Navigation timeout of 60000 ms exceeded''))"
    by (simp add: timeout_env_def)
  from print_pdf_closes_browser [OF valid l, of example_penv fresh] valid l g
  show ?thesis
    by blast
qed




text \<open>
  Claim C7 as stated fails at the number 0: it is falsy, so \<^verbatim>\<open>Number(scale) || 1\<close> is 1,
  and 1 is passed on, where clamping 0 to the interval would give 0.1.
\<close>

theorem clampScale_zero_not_clamped:
  "clampScale (Finite 0) = Finite 1
   \<and> clampScale (Finite 0) \<noteq> Finite (max point_one (min 2 0))"
  using point_one_bounds by (simp add: num_eval)

text \<open>
  Claim C7, as amended. Every PDF production call of the handler is passed the scale
  \<^verbatim>\<open>Math.max(0.1, Math.min(2, Number(scale) || 1))\<close> of the request's scale (1 when
  absent). For every numeric scale other than 0 that is the scale clamped to the
  interval from 0.1 to 2, infinities included; for 0 it is the default 1. So 10 gives 2
  and -1 gives 0.1.
\<close>

theorem print_pdf_scale_clamped:
  "(Pdf opts \<in> set (trace (snd (print_pdf_handler penv afterScheme ev reqBody fresh)))
      \<longrightarrow> pdf_scale opts
            = clampScale (withDefault (body_scale (bodyOrEmpty reqBody)) (Finite 1)))
   \<and> (x \<noteq> 0 \<longrightarrow> clampScale (Finite x) = Finite (max point_one (min 2 x)))
   \<and> clampScale (Finite 0) = Finite 1
   \<and> clampScale PosInfinity = Finite 2 \<and> clampScale NegInfinity = Finite point_one
   \<and> clampScale (Finite 10) = Finite 2 \<and> clampScale (Finite (-1)) = Finite point_one"
proof -
  have "pdf_scale opts = clampScale (withDefault (body_scale (bodyOrEmpty reqBody)) (Finite 1))"
    if "Pdf opts \<in> set (trace (snd (print_pdf_handler penv afterScheme ev reqBody fresh)))"
    using print_pdf_handler_pdf_events [OF that]
    by (simp add: fresh_def requestOptions_def pdfOptions_def Let_def)
  moreover have "x \<noteq> 0 \<longrightarrow> clampScale (Finite x) = Finite (max point_one (min 2 x))"
    using point_one_bounds by (auto simp: num_eval)
  moreover have "clampScale (Finite 0) = Finite 1" "clampScale PosInfinity = Finite 2"
    "clampScale NegInfinity = Finite point_one" "clampScale (Finite 10) = Finite 2"
    "clampScale (Finite (-1)) = Finite point_one"
    using point_one_bounds by (simp_all add: num_eval)
  ultimately show ?thesis by blast
qed

theorem print_pdf_scale_clamped_witness:
  "Pdf example_options \<in> set (trace (snd (print_pdf_handler no_key_penv anyRemainder
      (example_env 200 200) (Some example_body) fresh)))
   \<and> body_scale (bodyOrEmpty (Some example_body)) = Some (Finite 10)
   \<and> (10::real) \<noteq> 0
   \<and> pdf_scale example_options = Finite 2
   \<and> clampScale (Finite 10) = Finite (max point_one (min 2 10))"
proof -
  have s: "body_scale (bodyOrEmpty (Some example_body)) = Some (Finite 10)"
    by (simp add: example_eval)
  from print_pdf_scale_clamped [of example_options no_key_penv anyRemainder
      "example_env 200 200" "Some example_body" 10] point_one_bounds
  show ?thesis
    by (simp add: example_trace s withDefault_def)
qed

section \<open>Claims about both endpoints\<close>

text \<open>
  Claim C10. A request without a body, or whose body has no \<^verbatim>\<open>url\<close> field, is answered
  by both endpoints with status 400 and the invalid-URL message: the handler returns
  normally, and it makes no outside call (the trace is unchanged).
\<close>

theorem absent_url_is_invalid:
  "suggest_title_handler penv afterScheme ev None w
      = (Inr (), w\<lparr>res_status := 400,
                   res_body := Some (JsonBody (Obj [(lit ''error'', Str (lit ''Invalid URL''))]))\<rparr>)
   \<and> print_pdf_handler penv afterScheme ev None w
      = (Inr (), w\<lparr>res_status := 400, res_body := Some (TextBody (lit ''Invalid URL''))\<rparr>)
   \<and> suggest_title_handler penv afterScheme ev (Some (b\<lparr>body_url := None\<rparr>)) w
      = (Inr (), w\<lparr>res_status := 400,
                   res_body := Some (JsonBody (Obj [(lit ''error'', Str (lit ''Invalid URL''))]))\<rparr>)
   \<and> print_pdf_handler penv afterScheme ev (Some (b\<lparr>body_url := None\<rparr>)) w
      = (Inr (), w\<lparr>res_status := 400, res_body := Some (TextBody (lit ''Invalid URL''))\<rparr>)"
  by (simp add: suggest_title_handler_def print_pdf_handler_def bodyOrEmpty_def empty_body_def
      undefined_invalid try_catch_def io_bind_def set_status_def send_def Let_def)

end
